theory Spec2Isabelle
  imports Complex_Main
begin

section \<open>Python values used by the importer\<close>

text \<open>
  A Python \<open>str\<close> is a sequence of Unicode code points, so it is modelled as a list of
  natural numbers; \<open>len\<close> is \<open>length\<close>. ASCII literals are written with \<open>str\<close>.
\<close>

type_synonym pystr = "nat list"

definition str :: "string \<Rightarrow> pystr" where
  "str s = map of_char s"

datatype py_error =
  ValueError | IndexError | ZeroDivisionError | OverflowError | MultipleResultsFound

subsection \<open>Whitespace and case\<close>

text \<open>
  \<open>str.isspace\<close> of one code point: the 29 code points CPython treats as whitespace
  (TAB..CR, FS..US, SPACE, NEL, NBSP, U+1680, U+2000..U+200A, U+2028, U+2029, U+202F,
  U+205F, U+3000).
\<close>

definition isspace :: "nat \<Rightarrow> bool" where
  "isspace c \<longleftrightarrow>
     (9 \<le> c \<and> c \<le> 13) \<or> (28 \<le> c \<and> c \<le> 32) \<or> c = 133 \<or> c = 160 \<or> c = 5760 \<or>
     (8192 \<le> c \<and> c \<le> 8202) \<or> c = 8232 \<or> c = 8233 \<or> c = 8239 \<or> c = 8287 \<or> c = 12288"

definition py_lstrip :: "pystr \<Rightarrow> pystr" where
  "py_lstrip s = dropWhile isspace s"

definition py_rstrip :: "pystr \<Rightarrow> pystr" where
  "py_rstrip s = rev (dropWhile isspace (rev s))"

definition py_strip :: "pystr \<Rightarrow> pystr" where
  "py_strip s = py_lstrip (py_rstrip s)"

text \<open>\<open>s.lstrip(chars)\<close> and \<open>s.rstrip(chars)\<close>: \<open>chars\<close> is a set of characters, not a prefix
  or a suffix.\<close>

definition py_lstrip_chars :: "pystr \<Rightarrow> pystr \<Rightarrow> pystr" where
  "py_lstrip_chars chars s = dropWhile (\<lambda>c. c \<in> set chars) s"

definition py_rstrip_chars :: "pystr \<Rightarrow> pystr \<Rightarrow> pystr" where
  "py_rstrip_chars chars s = rev (dropWhile (\<lambda>c. c \<in> set chars) (rev s))"

text \<open>
  \<open>str.lower\<close>, one code point at a time. The table covers the alphabets of the sheet
  (ASCII and Cyrillic U+0400..U+042F) and the two other code points whose lower-case
  form contains an ASCII letter: U+0130 (two code points, \<open>i\<close> and U+0307) and the
  Kelvin sign U+212A (\<open>k\<close>). Every other code point is left as it is; CPython maps
  each of those to one code point outside ASCII and outside Cyrillic, so lengths and
  every comparison with ASCII or Cyrillic text agree with CPython.
\<close>

definition lower_cp :: "nat \<Rightarrow> pystr" where
  "lower_cp c =
     (if 65 \<le> c \<and> c \<le> 90 then [c + 32]
      else if 1040 \<le> c \<and> c \<le> 1071 then [c + 32]
      else if 1024 \<le> c \<and> c \<le> 1039 then [c + 80]
      else if c = 304 then [105, 775]
      else if c = 8490 then [107]
      else [c])"

definition py_lower :: "pystr \<Rightarrow> pystr" where
  "py_lower s = concat (map lower_cp s)"

subsection \<open>Prefixes, substrings, splitting and replacing\<close>

fun py_startswith :: "pystr \<Rightarrow> pystr \<Rightarrow> bool" where
  "py_startswith s [] = True"
| "py_startswith [] (p # ps) = False"
| "py_startswith (c # cs) (p # ps) = (c = p \<and> py_startswith cs ps)"

text \<open>\<open>sub in s\<close>.\<close>

fun py_in :: "pystr \<Rightarrow> pystr \<Rightarrow> bool" where
  "py_in sub [] = (sub = [])"
| "py_in sub (c # cs) = (py_startswith (c # cs) sub \<or> py_in sub cs)"

text \<open>
  \<open>s.split(sep)\<close> and \<open>s.replace(old, new)\<close> scan from the left and take
  non-overlapping occurrences. The importer calls both with constant, non-empty \<open>sep\<close>
  and \<open>old\<close> only (with an empty one Python raises, respectively inserts).
\<close>

function py_split :: "pystr \<Rightarrow> pystr \<Rightarrow> pystr list" where
  "py_split sep [] = [[]]"
| "py_split sep (c # cs) =
     (if sep \<noteq> [] \<and> py_startswith (c # cs) sep
      then [] # py_split sep (drop (length sep) (c # cs))
      else (case py_split sep cs of [] \<Rightarrow> [[c]] | p # ps \<Rightarrow> (c # p) # ps))"
  by pat_completeness auto
termination
  by (relation "measure (\<lambda>(sep, s). length s)") auto

function py_replace :: "pystr \<Rightarrow> pystr \<Rightarrow> pystr \<Rightarrow> pystr" where
  "py_replace old new [] = []"
| "py_replace old new (c # cs) =
     (if old \<noteq> [] \<and> py_startswith (c # cs) old
      then new @ py_replace old new (drop (length old) (c # cs))
      else c # py_replace old new cs)"
  by pat_completeness auto
termination
  by (relation "measure (\<lambda>(old, new, s). length s)") auto

text \<open>\<open>xs[0]\<close> and \<open>xs[-1]\<close> of a list that \<open>split\<close> returned (never empty).\<close>

definition first_part :: "pystr list \<Rightarrow> pystr" where
  "first_part parts = (case parts of [] \<Rightarrow> [] | p # ps \<Rightarrow> p)"

definition last_part :: "pystr list \<Rightarrow> pystr" where
  "last_part parts = (case rev parts of [] \<Rightarrow> [] | p # ps \<Rightarrow> p)"

text \<open>\<open>s.split()\<close>: the maximal runs of characters that are not whitespace.\<close>

fun split_ws_from :: "pystr \<Rightarrow> pystr \<Rightarrow> pystr list" where
  "split_ws_from w [] = (if w = [] then [] else [w])"
| "split_ws_from w (c # cs) =
     (if isspace c then (if w = [] then split_ws_from [] cs else w # split_ws_from [] cs)
      else split_ws_from (w @ [c]) cs)"

definition py_split_ws :: "pystr \<Rightarrow> pystr list" where
  "py_split_ws s = split_ws_from [] s"

subsection \<open>Numbers: \<open>int(s)\<close>, \<open>float(s)\<close> and binary64 arithmetic\<close>

text \<open>
  The decimal digits that \<open>int\<close> and \<open>float\<close> accept are the code points of category Nd
  (Unicode 14, the database of CPython 3.11): runs of ten code points with the values
  0 to 9, given here by first code point and length.
\<close>

definition nd_runs :: "(nat \<times> nat) list" where
  "nd_runs =
     [(48, 10), (1632, 10), (1776, 10), (1984, 10), (2406, 10), (2534, 10), (2662, 10),
      (2790, 10), (2918, 10), (3046, 10), (3174, 10), (3302, 10), (3430, 10), (3558, 10),
      (3664, 10), (3792, 10), (3872, 10), (4160, 10), (4240, 10), (6112, 10), (6160, 10),
      (6470, 10), (6608, 10), (6784, 10), (6800, 10), (6992, 10), (7088, 10), (7232, 10),
      (7248, 10), (42528, 10), (43216, 10), (43264, 10), (43472, 10), (43504, 10),
      (43600, 10), (44016, 10), (65296, 10), (66720, 10), (68912, 10), (69734, 10),
      (69872, 10), (69942, 10), (70096, 10), (70384, 10), (70736, 10), (70864, 10),
      (71248, 10), (71360, 10), (71472, 10), (71904, 10), (72016, 10), (72784, 10),
      (73040, 10), (73120, 10), (92768, 10), (92864, 10), (93008, 10), (120782, 50),
      (123200, 10), (123632, 10), (125264, 10), (130032, 10)]"

definition digit_value :: "nat \<Rightarrow> nat option" where
  "digit_value c =
     (case find (\<lambda>(b, n). b \<le> c \<and> c < b + n) nd_runs of
        Some (b, n) \<Rightarrow> Some ((c - b) mod 10)
      | None \<Rightarrow> None)"

text \<open>\<open>digitpart ::= digit (["_"] digit)*\<close>: the digits' values, or \<open>None\<close>.\<close>

fun digitpart :: "pystr \<Rightarrow> nat list option" where
  "digitpart [] = None"
| "digitpart (c # cs) =
     (case digit_value c of
        None \<Rightarrow> None
      | Some d \<Rightarrow>
          (case cs of
             [] \<Rightarrow> Some [d]
           | c' # cs' \<Rightarrow> map_option ((#) d) (if c' = 95 then digitpart cs' else digitpart cs)))"

definition decimal_value :: "nat list \<Rightarrow> nat" where
  "decimal_value ds = foldl (\<lambda>a d. 10 * a + d) 0 ds"

text \<open>An optional sign: whether it is \<open>-\<close>, and the rest.\<close>

definition take_sign :: "pystr \<Rightarrow> bool \<times> pystr" where
  "take_sign s =
     (case s of
        [] \<Rightarrow> (False, [])
      | c # cs \<Rightarrow> if c = 45 then (True, cs) else if c = 43 then (False, cs) else (False, s))"

text \<open>
  \<open>int(s)\<close> in base 10; \<open>None\<close> is \<open>ValueError\<close>. CPython 3.11 refuses a literal of more
  than 4300 digits.
\<close>

definition py_int :: "pystr \<Rightarrow> int option" where
  "py_int s =
     (let (neg, body) = take_sign (py_strip s)
      in case digitpart body of
           None \<Rightarrow> None
         | Some ds \<Rightarrow>
             if length ds > 4300 then None
             else Some (if neg then - int (decimal_value ds) else int (decimal_value ds)))"

text \<open>
  A binary64 value. A finite one is the rational it stands for; minus zero is kept
  apart because \<open>float("-0")\<close> is not \<open>< 0\<close>.
\<close>

datatype pyfloat = Finite rat | MinusZero | PlusInf | MinusInf | NaN

definition float_lt_zero :: "pyfloat \<Rightarrow> bool" where
  "float_lt_zero x = (case x of Finite q \<Rightarrow> q < 0 | MinusInf \<Rightarrow> True | _ \<Rightarrow> False)"

definition pow2 :: "int \<Rightarrow> rat" where
  "pow2 k = (if 0 \<le> k then 2 ^ nat k else 1 / 2 ^ nat (- k))"

text \<open>The integer nearest to \<open>n / d\<close>, ties to the even one (\<open>d > 0\<close>).\<close>

definition round_half_even :: "nat \<Rightarrow> nat \<Rightarrow> nat" where
  "round_half_even n d =
     (let m = n div d; r = n mod d
      in if 2 * r < d then m else if d < 2 * r then m + 1 else if even m then m else m + 1)"

fun bit_length :: "nat \<Rightarrow> nat" where
  "bit_length n = (if n = 0 then 0 else Suc (bit_length (n div 2)))"

text \<open>\<open>floor (log2 (n / d))\<close> for positive \<open>n\<close> and \<open>d\<close>.\<close>

definition floor_log2 :: "nat \<Rightarrow> nat \<Rightarrow> int" where
  "floor_log2 n d =
     (let k = int (bit_length n) - int (bit_length d)
      in if (if 0 \<le> k then 2 ^ nat k * d \<le> n else d \<le> 2 ^ nat (- k) * n) then k else k - 1)"

text \<open>
  \<open>n / d\<close> rounded to the nearest binary64 value, ties to even: 53 significant bits,
  exponents from -1022 (below it the subnormal spacing \<open>2^-1074\<close>) to 1023. \<open>None\<close> when
  the rounded value is beyond the largest finite one.
\<close>

definition binary64 :: "nat \<Rightarrow> nat \<Rightarrow> rat option" where
  "binary64 n d =
     (if n = 0 then Some 0
      else
        let e = max (floor_log2 n d) (- 1022);
            s = 52 - e;
            m = (if 0 \<le> s then round_half_even (n * 2 ^ nat s) d
                 else round_half_even n (d * 2 ^ nat (- s)));
            r = of_nat m * pow2 (- s)
        in if r < pow2 1024 then Some r else None)"

text \<open>
  Arithmetic on binary64 values, rounding to nearest with ties to even. \<open>float_round\<close>
  is the value nearest to a rational; adding a zero is exact.
\<close>

definition float_round :: "rat \<Rightarrow> pyfloat" where
  "float_round q =
     (if q = 0 then Finite 0
      else
        (case quotient_of \<bar>q\<bar> of (n, d) \<Rightarrow>
           (case binary64 (nat n) (nat d) of
              None \<Rightarrow> if q < 0 then MinusInf else PlusInf
            | Some r \<Rightarrow> if r = 0 then (if q < 0 then MinusZero else Finite 0)
                       else Finite (if q < 0 then - r else r))))"

fun float_add :: "pyfloat \<Rightarrow> pyfloat \<Rightarrow> pyfloat" where
  "float_add NaN y = NaN"
| "float_add x NaN = NaN"
| "float_add PlusInf MinusInf = NaN"
| "float_add MinusInf PlusInf = NaN"
| "float_add PlusInf y = PlusInf"
| "float_add x PlusInf = PlusInf"
| "float_add MinusInf y = MinusInf"
| "float_add x MinusInf = MinusInf"
| "float_add MinusZero y = y"
| "float_add x MinusZero = x"
| "float_add (Finite x) (Finite y) =
     (if x = 0 then Finite y else if y = 0 then Finite x else float_round (x + y))"

text \<open>\<open>x > y\<close>.\<close>

fun float_gt :: "pyfloat \<Rightarrow> pyfloat \<Rightarrow> bool" where
  "float_gt NaN y = False"
| "float_gt x NaN = False"
| "float_gt MinusInf y = False"
| "float_gt x PlusInf = False"
| "float_gt PlusInf y = True"
| "float_gt x MinusInf = True"
| "float_gt MinusZero MinusZero = False"
| "float_gt MinusZero (Finite y) = (0 > y)"
| "float_gt (Finite x) MinusZero = (x > 0)"
| "float_gt (Finite x) (Finite y) = (x > y)"

text \<open>
  \<open>a / b\<close> for two lengths: true division of integers, correctly rounded.
\<close>

definition py_truediv :: "nat \<Rightarrow> nat \<Rightarrow> py_error + pyfloat" where
  "py_truediv a b =
     (if b = 0 then Inl ZeroDivisionError
      else (case binary64 a b of None \<Rightarrow> Inl OverflowError | Some r \<Rightarrow> Inr (Finite r)))"

text \<open>The literal \<open>0.3\<close>: the binary64 value nearest to three tenths.\<close>

definition float_0_3 :: pyfloat where
  "float_0_3 = Finite (5404319552844595 / 18014398509481984)"

definition ascii_lower :: "pystr \<Rightarrow> pystr" where
  "ascii_lower s = map (\<lambda>c. if 65 \<le> c \<and> c \<le> 90 then c + 32 else c) s"

text \<open>The part before the first occurrence of one of \<open>seps\<close>, and the part after it if any.\<close>

fun cut_at :: "nat list \<Rightarrow> pystr \<Rightarrow> pystr \<times> pystr option" where
  "cut_at seps [] = ([], None)"
| "cut_at seps (c # cs) =
     (if c \<in> set seps then ([], Some cs)
      else (case cut_at seps cs of (a, b) \<Rightarrow> (c # a, b)))"

text \<open>
  \<open>[digitpart] "." digitpart | digitpart ["."]\<close>: the digits of the integer part and of
  the fraction.
\<close>

definition mantissa_digits :: "pystr \<Rightarrow> (nat list \<times> nat list) option" where
  "mantissa_digits s =
     (case cut_at [46] s of
        (ip, None) \<Rightarrow> map_option (\<lambda>ds. (ds, [])) (digitpart ip)
      | (ip, Some fp) \<Rightarrow>
          if ip = [] \<and> fp = [] then None
          else
            (case (if ip = [] then Some [] else digitpart ip,
                   if fp = [] then Some [] else digitpart fp) of
               (Some ids, Some fds) \<Rightarrow> Some (ids, fds)
             | _ \<Rightarrow> None))"

definition exponent_value :: "pystr option \<Rightarrow> int option" where
  "exponent_value ex =
     (case ex of
        None \<Rightarrow> Some 0
      | Some s \<Rightarrow>
          (let (neg, body) = take_sign s
           in case digitpart body of
                None \<Rightarrow> None
              | Some ds \<Rightarrow> Some (if neg then - int (decimal_value ds) else int (decimal_value ds))))"

text \<open>
  \<open>float(s)\<close>; \<open>None\<close> is \<open>ValueError\<close>. The decimal value is rounded correctly; a value
  too large becomes an infinity and one too small a zero, neither is an error.
\<close>

definition py_float :: "pystr \<Rightarrow> pyfloat option" where
  "py_float s =
     (let (neg, body) = take_sign (py_strip s);
          word = ascii_lower body
      in if word = str ''inf'' \<or> word = str ''infinity''
         then Some (if neg then MinusInf else PlusInf)
         else if word = str ''nan'' then Some NaN
         else
           (case cut_at [101, 69] body of (mant, ex) \<Rightarrow>
              (case (mantissa_digits mant, exponent_value ex) of
                 (Some (ids, fds), Some x) \<Rightarrow>
                   (let m = decimal_value (ids @ fds);
                        p = x - int (length fds);
                        v = (if 0 \<le> p then binary64 (m * 10 ^ nat p) 1
                             else binary64 m (10 ^ nat (- p)))
                    in case v of
                         None \<Rightarrow> Some (if neg then MinusInf else PlusInf)
                       | Some r \<Rightarrow>
                           Some (if r = 0 then (if neg then MinusZero else Finite 0)
                                 else Finite (if neg then - r else r)))
               | _ \<Rightarrow> None)))"

section \<open>Field normalizers (utils/validation.py)\<close>

subsection \<open>normalize_telegram_username\<close>

text \<open>The character class \<open>[a-zA-Z0-9_]\<close>.\<close>

definition username_char :: "nat \<Rightarrow> bool" where
  "username_char c \<longleftrightarrow>
     (97 \<le> c \<and> c \<le> 122) \<or> (65 \<le> c \<and> c \<le> 90) \<or> (48 \<le> c \<and> c \<le> 57) \<or> c = 95"

text \<open>
  \<open>re.match(r"^[a-zA-Z0-9_]+$", s)\<close>: without \<open>re.MULTILINE\<close> the \<open>$\<close> matches at the end
  of the string and also just before a newline that ends the string.
\<close>

definition re_match_username :: "pystr \<Rightarrow> bool" where
  "re_match_username s =
     (let w = (if s \<noteq> [] \<and> last s = 10 then butlast s else s)
      in w \<noteq> [] \<and> list_all username_char w)"

definition normalize_telegram_username :: "pystr \<Rightarrow> pystr option" where
  "normalize_telegram_username username =
     (if username = [] then None
      else
        let normalized = py_lower (py_lstrip_chars (str ''@'') (py_strip username))
        in if \<not> re_match_username normalized then None else Some normalized)"

text \<open>The claim's wording, "strips a single leading @", as a function of its own.\<close>

definition strip_single_at :: "pystr \<Rightarrow> pystr" where
  "strip_single_at s = (case s of [] \<Rightarrow> [] | c # cs \<Rightarrow> if c = 64 then cs else s)"

text \<open>The class \<open>[a-z0-9_]\<close> of a normalized handle.\<close>

definition handle_char :: "nat \<Rightarrow> bool" where
  "handle_char c \<longleftrightarrow> (97 \<le> c \<and> c \<le> 122) \<or> (48 \<le> c \<and> c \<le> 57) \<or> c = 95"

subsection \<open>normalize_github_url\<close>

definition github_prefix :: pystr where
  "github_prefix = str ''https://github.com/''"

definition double_prefix :: pystr where
  "double_prefix = str ''https://github.com/https://''"

text \<open>
  The owner of a Gist URL, re-homed under \<open>github.com\<close>: the two places of the source
  that split on \<open>"gist.github.com/"\<close>. The outer \<open>None\<close> means that the split gave one
  part only and the source falls through; the inner one is the returned \<open>None\<close> for an
  empty owner.
\<close>

definition gist_owner :: "pystr \<Rightarrow> pystr option option" where
  "gist_owner s =
     (let gist_parts = py_split (str ''gist.github.com/'') s
      in if length gist_parts > 1
         then
           (let username = first_part (py_split (str ''/'') (gist_parts ! 1))
            in Some (if username \<noteq> [] then Some (github_prefix @ username) else None))
         else None)"

text \<open>
  The block that repairs the double prefix. \<open>Some r\<close>: the source returns \<open>r\<close> from
  inside the block; \<open>None\<close>: it goes on to the format chain.
\<close>

definition double_prefix_result :: "pystr \<Rightarrow> pystr option option" where
  "double_prefix_result url =
     (if py_in double_prefix url
      then
        (let parts = py_split double_prefix url
         in if length parts > 1
            then
              (if py_in (str ''gist.github.com'') (parts ! 1) then gist_owner (parts ! 1)
               else if py_startswith (parts ! 1) (str ''github.com/'')
               then Some (Some (str ''https://'' @ parts ! 1))
               else None)
            else None)
      else None)"

definition normalize_github_url :: "pystr \<Rightarrow> pystr option" where
  "normalize_github_url raw =
     (if raw = [] then None
      else
        let url = py_strip raw
        in case double_prefix_result url of
             Some r \<Rightarrow> r
           | None \<Rightarrow>
               if py_startswith url (str ''https://github.com/'') then Some url
               else if py_startswith url (str ''http://github.com/'')
               then Some (py_replace (str ''http://'') (str ''https://'') url)
               else if py_startswith url (str ''github.com/'') then Some (str ''https://'' @ url)
               else if py_startswith url (str ''https://gist.github.com/'')
               then (case gist_owner url of Some r \<Rightarrow> r | None \<Rightarrow> None)
               else if py_in (str ''/'') url \<and> \<not> py_startswith url (str ''http'')
               then Some (github_prefix @ url)
               else Some (github_prefix @ url))"

subsection \<open>normalize_github_url_canonical\<close>

definition normalize_github_url_canonical :: "pystr \<Rightarrow> pystr option" where
  "normalize_github_url_canonical raw =
     (if raw = [] then None
      else
        let url0 = py_strip raw;
            url = (if py_in double_prefix url0
                   then (let parts = py_split double_prefix url0
                         in if length parts > 1 then parts ! 1 else url0)
                   else url0);
            path0 = (if py_in (str ''github.com'') url
                     then
                       (let p = last_part (py_split (str ''github.com/'') url);
                            q = (if py_startswith p (str ''https://'') then drop 8 p
                                 else if py_startswith p (str ''http://'') then drop 7 p
                                 else p)
                        in if py_startswith q (str ''www.'') then drop 4 q else q)
                     else url);
            path1 = py_rstrip_chars (str ''.git'') path0;
            path2 = py_rstrip_chars (str ''/'') path1;
            path3 = (if py_in (str ''#'') path2
                     then first_part (py_split (str ''#'') path2) else path2);
            path = (if py_in (str ''?'') path3
                    then first_part (py_split (str ''?'') path3) else path3)
        in if path = [] \<or> \<not> py_in (str ''/'') path then None
           else
             (let parts = py_split (str ''/'') path
              in if length parts < 2 \<or> parts ! 0 = [] \<or> parts ! 1 = [] then None
                 else Some (github_prefix @ parts ! 0 @ str ''/'' @ parts ! 1)))"

subsection \<open>parse_period\<close>

datatype pydate = Date int nat nat

text \<open>
  \<open>datetime.date(year, month, day)\<close> for the first day of a month. CPython converts the
  arguments to C \<open>int\<close> first, so a year outside 32 bits is an \<open>OverflowError\<close>; a year
  outside 1..9999 or a month outside 1..12 is a \<open>ValueError\<close>.
\<close>

definition py_date :: "int \<Rightarrow> nat \<Rightarrow> py_error + pydate" where
  "py_date y m =
     (if y < - 2147483648 \<or> 2147483647 < y then Inl OverflowError
      else if y < 1 \<or> 9999 < y \<or> m < 1 \<or> 12 < m then Inl ValueError
      else Inr (Date y m 1))"

text \<open>
  \<open>month_map\<close>: the twelve Russian month names, capitalised, as code points
  (U+042F U+043D U+0432 U+0430 U+0440 U+044C is January, and so on).
\<close>

definition month_map :: "(pystr \<times> nat) list" where
  "month_map =
     [([1071, 1085, 1074, 1072, 1088, 1100], 1),
      ([1060, 1077, 1074, 1088, 1072, 1083, 1100], 2),
      ([1052, 1072, 1088, 1090], 3),
      ([1040, 1087, 1088, 1077, 1083, 1100], 4),
      ([1052, 1072, 1081], 5),
      ([1048, 1102, 1085, 1100], 6),
      ([1048, 1102, 1083, 1100], 7),
      ([1040, 1074, 1075, 1091, 1089, 1090], 8),
      ([1057, 1077, 1085, 1090, 1103, 1073, 1088, 1100], 9),
      ([1054, 1082, 1090, 1103, 1073, 1088, 1100], 10),
      ([1053, 1086, 1103, 1073, 1088, 1100], 11),
      ([1044, 1077, 1082, 1072, 1073, 1088, 1100], 12)]"

text \<open>
  The \<open>try\<close> block catches \<open>ValueError\<close> and \<open>IndexError\<close> only: those give \<open>None\<close>, any
  other error leaves the function.
\<close>

definition parse_period :: "pystr \<Rightarrow> py_error + pydate option" where
  "parse_period period_str =
     (if period_str = [] then Inr None
      else
        let parts = py_split_ws (py_strip (py_replace (str '','') [] period_str))
        in if length parts \<ge> 2
           then
             (case py_int (parts ! 1) of
                None \<Rightarrow> Inr None
              | Some y \<Rightarrow>
                  (case map_of month_map (parts ! 0) of
                     None \<Rightarrow> Inr None
                   | Some m \<Rightarrow>
                       (case py_date y m of
                          Inl e \<Rightarrow> if e = ValueError \<or> e = IndexError then Inr None else Inl e
                        | Inr d \<Rightarrow> Inr (Some d))))
           else Inr None)"

subsection \<open>validate_row_length, clean_string\<close>

definition validate_row_length :: "pystr list \<Rightarrow> nat \<Rightarrow> bool" where
  "validate_row_length row expected_length \<longleftrightarrow> \<not> (row = [] \<or> length row < expected_length)"

definition clean_string :: "pystr \<Rightarrow> pystr" where
  "clean_string v = (if v = [] then [] else py_strip v)"

section \<open>Data processor (services/data_processor.py)\<close>

text \<open>
  Logging is left out, and so are the statistics of the project rows, which no property
  below reads. A raw row is a list of cells, each a string.
\<close>

subsection \<open>_process_projects\<close>

record project_record =
  name :: "pystr"
  language :: pystr
  repository_url :: pystr
  author_github_url :: pystr
  submission_date :: "pydate option"

text \<open>The test of the loop for a period header.\<close>

definition is_period_header :: "pystr list \<Rightarrow> bool" where
  "is_period_header row \<longleftrightarrow> length row \<le> 2 \<or> (length row > 1 \<and> py_strip (row ! 1) = [])"

text \<open>\<open>parse_period(row[0]) if row and row[0] else None\<close>.\<close>

definition header_period :: "pystr list \<Rightarrow> py_error + pydate option" where
  "header_period row = (if row \<noteq> [] \<and> row ! 0 \<noteq> [] then parse_period (row ! 0) else Inr None)"

text \<open>
  \<open>clean_and_validate\<close> with the project's field validators, \<open>_filter_project\<close> and the
  record that is appended, for a row of at least eight cells: the name is cell 1, the
  language cell 2, the repository URL cell 4 and the author's GitHub URL cell 6.
\<close>

definition project_of_row :: "pystr list \<Rightarrow> pydate option \<Rightarrow> project_record option" where
  "project_of_row row current_period =
     (let name_v = (let x = clean_string (row ! 1) in if x \<noteq> [] then Some (py_strip x) else None);
          language_v = (let x = clean_string (row ! 2) in if x \<noteq> [] then py_strip x else []);
          repository_v = (let x = clean_string (row ! 4) in if x \<noteq> [] then py_strip x else []);
          author_v = normalize_github_url (clean_string (row ! 6))
      in case (name_v, author_v) of
           (Some n, Some a) \<Rightarrow>
             if n = [] \<or> a = [] then None
             else Some \<lparr>name = n, language = language_v, repository_url = repository_v,
                        author_github_url = a, submission_date = current_period\<rparr>
         | _ \<Rightarrow> None)"

fun process_projects_from ::
  "pydate option \<Rightarrow> pystr list list \<Rightarrow> py_error + project_record list" where
  "process_projects_from current_period [] = Inr []"
| "process_projects_from current_period (row # rows) =
     (if is_period_header row
      then
        (case header_period row of
           Inl e \<Rightarrow> Inl e
         | Inr p \<Rightarrow> process_projects_from p rows)
      else if \<not> validate_row_length row 8 then process_projects_from current_period rows
      else
        (case project_of_row row current_period of
           None \<Rightarrow> process_projects_from current_period rows
         | Some r \<Rightarrow>
             (case process_projects_from current_period rows of
                Inl e \<Rightarrow> Inl e
              | Inr rs \<Rightarrow> Inr (r # rs))))"

definition process_projects :: "pystr list list \<Rightarrow> py_error + project_record list" where
  "process_projects projects_data = process_projects_from None projects_data"

subsection \<open>_process_sponsored_reviews\<close>

text \<open>
  The processed record. \<open>created_at\<close>, the clock's reading, is left out. The cost is the
  binary64 value that \<open>float\<close> returned.
\<close>

record sponsored_review_record =
  period :: "pystr option"
  mentor_identifier :: pystr
  project_github_url :: pystr
  project_name :: pystr
  telegram_message_url :: "pystr option"
  cost :: pyfloat
  currency :: pystr
  payment_status :: pystr

record sponsored_statistics =
  total :: nat
  imported :: nat
  linking_errors :: nat
  validation_errors :: nat

text \<open>
  The header keywords (U+043F U+0435 U+0440 U+0438 U+043E U+0434, \<open>github\<close>,
  \<open>telegram\<close>, and the Russian words for cost, review and month), as code points.
\<close>

definition header_keywords :: "pystr list" where
  "header_keywords =
     [[1087, 1077, 1088, 1080, 1086, 1076],
      [103, 105, 116, 104, 117, 98],
      [116, 101, 108, 101, 103, 114, 97, 109],
      [1089, 1090, 1086, 1080, 1084, 1086, 1089, 1090, 1100],
      [1088, 1077, 1074, 1100, 1102],
      [1084, 1077, 1089, 1103, 1094]]"

text \<open>\<open>not cell.strip()\<close>.\<close>

definition blank :: "pystr \<Rightarrow> bool" where
  "blank cell \<longleftrightarrow> py_strip cell = []"

text \<open>\<open>str(cell).strip() if cell else None\<close>.\<close>

definition cell_value :: "pystr \<Rightarrow> pystr option" where
  "cell_value cell = (if cell = [] then None else Some (py_strip cell))"

text \<open>The three tests that skip a row without counting it: empty, header, period only.\<close>

definition empty_row :: "pystr list \<Rightarrow> bool" where
  "empty_row row \<longleftrightarrow> row = [] \<or> list_all blank row"

definition header_row :: "pystr list \<Rightarrow> bool" where
  "header_row row \<longleftrightarrow>
     length row \<ge> 1 \<and> list_ex (\<lambda>keyword. py_in (py_lower keyword) (py_lower (row ! 0))) header_keywords"

definition period_only_row :: "pystr list \<Rightarrow> bool" where
  "period_only_row row \<longleftrightarrow> length row \<ge> 1 \<and> \<not> blank (row ! 0) \<and> list_all blank (tl row)"

text \<open>The cost string without currency symbols (\<open>$\<close>, U+20AC, U+20BD), comma as dot.\<close>

definition cost_clean :: "pystr \<Rightarrow> pystr" where
  "cost_clean cost_str =
     py_strip (py_replace (str '','') (str ''.'')
       (py_replace [8381] [] (py_replace [8364] [] (py_replace (str ''$'') [] cost_str))))"

datatype row_outcome = Skipped | Invalid | Retained sponsored_review_record

text \<open>
  One pass of the loop body: \<open>Skipped\<close> is a \<open>continue\<close> that counts nothing, \<open>Invalid\<close> one
  that adds 1 to \<open>validation_errors\<close>, \<open>Retained\<close> the record appended. Every cell is a
  string, so nothing in the body raises and the outer \<open>except\<close> is never entered.
\<close>

definition process_sponsored_row :: "pystr list \<Rightarrow> row_outcome" where
  "process_sponsored_row row =
     (if empty_row row then Skipped
      else if header_row row then Skipped
      else if period_only_row row then Skipped
      else if length row < 5 then Invalid
      else
        (case (cell_value (row ! 3), cell_value (row ! 1), cell_value (row ! 4)) of
           (Some mentor_telegram, Some url, Some cost_str) \<Rightarrow>
             if mentor_telegram = [] \<or> url = [] \<or> cost_str = [] then Invalid
             else if \<not> py_startswith url (str ''https://github.com/'') then Invalid
             else
               (case py_float (cost_clean cost_str) of
                  None \<Rightarrow> Invalid
                | Some c \<Rightarrow>
                    if float_lt_zero c then Invalid
                    else Retained
                      \<lparr>period = cell_value (row ! 0),
                       mentor_identifier = mentor_telegram,
                       project_github_url = url,
                       project_name = py_replace (str ''.git'') [] (last_part (py_split (str ''/'') url)),
                       telegram_message_url = cell_value (row ! 2),
                       cost = c,
                       currency = str ''USD'',
                       payment_status = str ''pending''\<rparr>)
         | _ \<Rightarrow> Invalid))"

fun sponsored_loop ::
  "pystr list list \<Rightarrow> sponsored_review_record list \<Rightarrow> sponsored_statistics \<Rightarrow>
   sponsored_review_record list \<times> sponsored_statistics" where
  "sponsored_loop [] processed st = (processed, st)"
| "sponsored_loop (row # rows) processed st =
     (case process_sponsored_row row of
        Skipped \<Rightarrow> sponsored_loop rows processed st
      | Invalid \<Rightarrow>
          sponsored_loop rows processed (st\<lparr>validation_errors := validation_errors st + 1\<rparr>)
      | Retained r \<Rightarrow>
          sponsored_loop rows (processed @ [r]) (st\<lparr>imported := imported st + 1\<rparr>))"

definition process_sponsored_reviews ::
  "pystr list list \<Rightarrow> sponsored_statistics \<Rightarrow> sponsored_review_record list \<times> sponsored_statistics" where
  "process_sponsored_reviews sponsored_reviews_data st =
     sponsored_loop sponsored_reviews_data [] (st\<lparr>total := length sponsored_reviews_data\<rparr>)"

text \<open>
  The claim's words for a row: one of the three kinds that are skipped, and the
  conditions under which a row is turned into a record (mentor in cell 3, project URL
  in cell 1, cost in cell 4).
\<close>

definition skipped_row :: "pystr list \<Rightarrow> bool" where
  "skipped_row row \<longleftrightarrow> empty_row row \<or> header_row row \<or> period_only_row row"

definition sponsored_row_valid :: "pystr list \<Rightarrow> bool" where
  "sponsored_row_valid row \<longleftrightarrow>
     length row \<ge> 5 \<and> \<not> blank (row ! 3) \<and> \<not> blank (row ! 1) \<and> \<not> blank (row ! 4)
     \<and> py_startswith (py_strip (row ! 1)) (str ''https://github.com/'')
     \<and> (case py_float (cost_clean (py_strip (row ! 4))) of
          None \<Rightarrow> False
        | Some c \<Rightarrow> \<not> float_lt_zero c)"

section \<open>Import service (services/import_service.py)\<close>

text \<open>
  The tables that the linking of sponsored reviews reads, each a list of rows in the
  order the store returns them, with the columns that the queries and the linking use.
  A nullable column is an \<open>option\<close>. Ids are the store's integer keys. Logging and the
  clock (\<open>payment_date\<close>) are left out.
\<close>

record project_row =
  projects_id :: nat
  projects_name :: pystr
  projects_repository_url :: "pystr option"

record review_row =
  reviews_id :: nat
  reviews_project_id :: nat
  reviews_mentor_id :: nat
  reviews_review_url :: "pystr option"

record sponsored_review_row =
  sr_review_id :: "nat option"
  sr_project_id :: nat
  sr_mentor_id :: nat
  sr_cost :: pyfloat
  sr_currency :: pystr
  sr_payment_status :: pystr
  sr_notes :: pystr
  sr_telegram_message_url :: "pystr option"

text \<open>
  \<open>Result.scalar_one_or_none()\<close>: the one row, \<open>None\<close> when there is none, and
  \<open>MultipleResultsFound\<close> when there are several.
\<close>

definition scalar_one_or_none :: "'a list \<Rightarrow> py_error + 'a option" where
  "scalar_one_or_none rows =
     (case rows of
        [] \<Rightarrow> Inr None
      | r # rest \<Rightarrow> if rest = [] then Inr (Some r) else Inl MultipleResultsFound)"

subsection \<open>_find_review_by_url\<close>

definition find_review_by_url ::
  "review_row list \<Rightarrow> pystr option \<Rightarrow> nat \<Rightarrow> nat \<Rightarrow> py_error + nat option" where
  "find_review_by_url reviews message_url mentor_id project_id =
     (case message_url of
        None \<Rightarrow> Inr None
      | Some url \<Rightarrow>
          if url = [] then Inr None
          else
            (case scalar_one_or_none (filter (\<lambda>r. reviews_review_url r = Some url) reviews) of
               Inl e \<Rightarrow> Inl e
             | Inr None \<Rightarrow> Inr None
             | Inr (Some review) \<Rightarrow> Inr (Some (reviews_id review))))"

subsection \<open>_find_project_by_github_url\<close>

text \<open>Strategy 2: the first project whose stored URL has the same canonical form.\<close>

definition strategy2 :: "pystr \<Rightarrow> project_row list \<Rightarrow> nat option" where
  "strategy2 canonical_url all_projects =
     map_option projects_id
       (find (\<lambda>p. case projects_repository_url p of
                    None \<Rightarrow> False
                  | Some url \<Rightarrow> url \<noteq> [] \<and> normalize_github_url_canonical url = Some canonical_url)
          all_projects)"

text \<open>Strategy 3: the first project whose stored URL contains both owner and repository.\<close>

definition strategy3 :: "pystr \<Rightarrow> project_row list \<Rightarrow> nat option" where
  "strategy3 canonical_url all_projects =
     (if py_in (str ''github.com/'') canonical_url
      then
        (let path = last_part (py_split (str ''github.com/'') canonical_url);
             parts = py_split (str ''/'') path
         in if length parts \<ge> 2
            then
              map_option projects_id
                (find (\<lambda>p. case projects_repository_url p of
                             None \<Rightarrow> False
                           | Some url \<Rightarrow>
                               url \<noteq> [] \<and> py_in (py_lower (parts ! 0)) (py_lower url)
                               \<and> py_in (py_lower (parts ! 1)) (py_lower url))
                   all_projects)
            else None)
      else None)"

text \<open>
  Strategy 4, for one candidate whose lower-cased, stripped name is \<open>project_name_lower\<close>:
  the score, and whether the candidate is returned.
\<close>

definition fuzzy_similarity :: "pystr \<Rightarrow> pystr \<Rightarrow> pystr \<Rightarrow> py_error + pyfloat" where
  "fuzzy_similarity search_name repo_name project_name_lower =
     (case (if py_in search_name project_name_lower
            then (case py_truediv (length search_name) (length project_name_lower) of
                    Inl e \<Rightarrow> Inl e
                  | Inr d \<Rightarrow> Inr (float_add (Finite 0) d))
            else Inr (Finite 0)) of
        Inl e \<Rightarrow> Inl e
      | Inr similarity \<Rightarrow>
          if py_in repo_name project_name_lower
          then (case py_truediv (length repo_name) (length project_name_lower) of
                  Inl e \<Rightarrow> Inl e
                | Inr d \<Rightarrow> Inr (float_add similarity d))
          else Inr similarity)"

definition fuzzy_accepts :: "pystr \<Rightarrow> pystr \<Rightarrow> pystr \<Rightarrow> py_error + bool" where
  "fuzzy_accepts search_name repo_name project_name_lower =
     (if py_in search_name project_name_lower \<or> py_in project_name_lower search_name
         \<or> py_in repo_name project_name_lower \<or> py_in project_name_lower repo_name
      then
        (case fuzzy_similarity search_name repo_name project_name_lower of
           Inl e \<Rightarrow> Inl e
         | Inr similarity \<Rightarrow> Inr (float_gt similarity float_0_3))
      else Inr False)"

fun strategy4_loop :: "pystr \<Rightarrow> pystr \<Rightarrow> project_row list \<Rightarrow> py_error + nat option" where
  "strategy4_loop search_name repo_name [] = Inr None"
| "strategy4_loop search_name repo_name (p # ps) =
     (case fuzzy_accepts search_name repo_name (py_strip (py_lower (projects_name p))) of
        Inl e \<Rightarrow> Inl e
      | Inr accepted \<Rightarrow>
          if accepted then Inr (Some (projects_id p))
          else strategy4_loop search_name repo_name ps)"

definition strategy4 :: "pystr \<Rightarrow> pystr \<Rightarrow> project_row list \<Rightarrow> py_error + nat option" where
  "strategy4 project_name_arg canonical_url all_projects =
     (if project_name_arg \<noteq> []
      then strategy4_loop (py_strip (py_lower project_name_arg))
             (py_lower (last_part (py_split (str ''/'') canonical_url))) all_projects
      else Inr None)"

definition find_project_by_github_url ::
  "project_row list \<Rightarrow> pystr \<Rightarrow> pystr \<Rightarrow> py_error + nat option" where
  "find_project_by_github_url projects github_url project_name_arg =
     (if github_url = [] then Inr None
      else
        (case normalize_github_url_canonical github_url of
           None \<Rightarrow> Inr None
         | Some canonical_url \<Rightarrow>
             (case scalar_one_or_none
                     (filter (\<lambda>p. projects_repository_url p = Some canonical_url) projects) of
                Inl e \<Rightarrow> Inl e
              | Inr (Some project) \<Rightarrow> Inr (Some (projects_id project))
              | Inr None \<Rightarrow>
                  (let all_projects = filter (\<lambda>p. projects_repository_url p \<noteq> None) projects
                   in case strategy2 canonical_url all_projects of
                        Some i \<Rightarrow> Inr (Some i)
                      | None \<Rightarrow>
                          (case strategy3 canonical_url all_projects of
                             Some i \<Rightarrow> Inr (Some i)
                           | None \<Rightarrow> strategy4 project_name_arg canonical_url all_projects)))))"

subsection \<open>_import_sponsored_reviews\<close>

text \<open>Truth of an optional id: \<open>None\<close> and 0 are false.\<close>

definition id_true :: "nat option \<Rightarrow> bool" where
  "id_true i = (case i of None \<Rightarrow> False | Some n \<Rightarrow> n \<noteq> 0)"

text \<open>
  The fallback query: the reviews of this mentor for this project, newest id first,
  read with \<open>scalar_one_or_none\<close>.
\<close>

definition fallback_review :: "review_row list \<Rightarrow> nat \<Rightarrow> nat \<Rightarrow> py_error + review_row option" where
  "fallback_review reviews mentor_id project_id =
     scalar_one_or_none
       (rev (sort_key reviews_id
          (filter (\<lambda>r. reviews_mentor_id r = mentor_id \<and> reviews_project_id r = project_id) reviews)))"

text \<open>
  The review a sponsored review is associated with: the URL match, and the fallback when
  that gives nothing.
\<close>

definition associated_review ::
  "review_row list \<Rightarrow> pystr option \<Rightarrow> nat \<Rightarrow> nat \<Rightarrow> py_error + nat option" where
  "associated_review reviews message_url mentor_id project_id =
     (case find_review_by_url reviews message_url mentor_id project_id of
        Inl e \<Rightarrow> Inl e
      | Inr review_id \<Rightarrow>
          if id_true review_id then Inr review_id
          else
            (case fallback_review reviews mentor_id project_id of
               Inl e \<Rightarrow> Inl e
             | Inr None \<Rightarrow> Inr review_id
             | Inr (Some review) \<Rightarrow> Inr (Some (reviews_id review))))"


text \<open>
  One pass of the loop body. \<open>LinkingError\<close>: mentor or project not found, counted and
  skipped. \<open>Dropped e\<close>: the error \<open>e\<close> was raised in the body and caught by the loop's
  \<open>except Exception\<close>, which goes on to the next record without counting anything.
  \<open>Created\<close>: the row that is added to the session.
\<close>

datatype link_outcome = LinkingError | Dropped py_error | Created sponsored_review_row

definition mentor_lookup :: "(pystr \<rightharpoonup> nat) \<Rightarrow> pystr \<Rightarrow> nat option" where
  "mentor_lookup telegram_to_user_id identifier =
     (if py_startswith identifier (str ''@'')
      then telegram_to_user_id (py_lower (drop 1 identifier))
      else None)"

definition import_sponsored_review ::
  "(pystr \<rightharpoonup> nat) \<Rightarrow> project_row list \<Rightarrow> review_row list \<Rightarrow> sponsored_review_record \<Rightarrow>
   link_outcome" where
  "import_sponsored_review telegram_to_user_id projects reviews review_data =
     (case mentor_lookup telegram_to_user_id (mentor_identifier review_data) of
        None \<Rightarrow> LinkingError
      | Some mentor_id \<Rightarrow>
          if mentor_id = 0 then LinkingError
          else
            (case find_project_by_github_url projects (project_github_url review_data)
                    (project_name review_data) of
               Inl e \<Rightarrow> Dropped e
             | Inr None \<Rightarrow> LinkingError
             | Inr (Some project_id) \<Rightarrow>
                 if project_id = 0 then LinkingError
                 else
                   (case associated_review reviews (telegram_message_url review_data)
                           mentor_id project_id of
                      Inl e \<Rightarrow> Dropped e
                    | Inr review_id \<Rightarrow>
                        Created
                          \<lparr>sr_review_id = review_id,
                           sr_project_id = project_id,
                           sr_mentor_id = mentor_id,
                           sr_cost = cost review_data,
                           sr_currency = currency review_data,
                           sr_payment_status = payment_status review_data,
                           sr_notes = str ''Period: '' @
                             (case period review_data of None \<Rightarrow> str ''None'' | Some p \<Rightarrow> p),
                           sr_telegram_message_url = telegram_message_url review_data\<rparr>)))"

record sponsored_import_stats =
  created :: nat
  link_errors :: nat

fun import_sponsored_reviews ::
  "(pystr \<rightharpoonup> nat) \<Rightarrow> project_row list \<Rightarrow> review_row list \<Rightarrow> sponsored_review_record list \<Rightarrow>
   sponsored_review_row list \<Rightarrow> sponsored_import_stats \<Rightarrow>
   sponsored_review_row list \<times> sponsored_import_stats" where
  "import_sponsored_reviews tg projects reviews [] added st = (added, st)"
| "import_sponsored_reviews tg projects reviews (review_data # rest) added st =
     (case import_sponsored_review tg projects reviews review_data of
        LinkingError \<Rightarrow>
          import_sponsored_reviews tg projects reviews rest added
            (st\<lparr>link_errors := link_errors st + 1\<rparr>)
      | Dropped e \<Rightarrow> import_sponsored_reviews tg projects reviews rest added st
      | Created row \<Rightarrow>
          import_sponsored_reviews tg projects reviews rest (added @ [row])
            (st\<lparr>created := created st + 1\<rparr>))"

section \<open>Properties of the string operations\<close>

text \<open>The unfolding rules that evaluate the string operations on a literal.\<close>

lemmas py_eval = str_def py_strip_def py_lstrip_def py_rstrip_def py_lstrip_chars_def
  py_rstrip_chars_def py_lower_def lower_cp_def isspace_def first_part_def last_part_def
  github_prefix_def double_prefix_def Let_def

lemmas num_eval = py_int_def py_float_def take_sign_def digit_value_def nd_runs_def
  decimal_value_def ascii_lower_def mantissa_digits_def exponent_value_def binary64_def
  floor_log2_def round_half_even_def pow2_def float_lt_zero_def py_split_ws_def

lemmas row_eval = process_sponsored_row_def empty_row_def header_row_def period_only_row_def
  header_keywords_def blank_def cell_value_def cost_clean_def

lemma last_dropWhile_nonempty:
  "dropWhile P xs \<noteq> [] \<Longrightarrow> last (dropWhile P xs) = last xs"
  by (induction xs) (auto split: if_splits)

lemma py_rstrip_last: "py_rstrip s \<noteq> [] \<Longrightarrow> \<not> isspace (last (py_rstrip s))"
proof -
  assume ne: "py_rstrip s \<noteq> []"
  then have d: "dropWhile isspace (rev s) \<noteq> []"
    by (simp add: py_rstrip_def)
  have "last (py_rstrip s) = hd (dropWhile isspace (rev s))"
    using d by (simp add: py_rstrip_def last_rev)
  moreover have "\<not> isspace (hd (dropWhile isspace (rev s)))"
    using d by (rule hd_dropWhile)
  ultimately show ?thesis by simp
qed

lemma py_strip_last: "py_strip s \<noteq> [] \<Longrightarrow> \<not> isspace (last (py_strip s))"
proof -
  assume ne: "py_strip s \<noteq> []"
  then have r: "py_rstrip s \<noteq> []"
    by (auto simp: py_strip_def py_lstrip_def)
  have "last (py_strip s) = last (py_rstrip s)"
    using ne by (simp add: py_strip_def py_lstrip_def last_dropWhile_nonempty)
  then show ?thesis using py_rstrip_last [OF r] by simp
qed

lemma lower_cp_nonempty: "lower_cp c \<noteq> []"
  by (simp add: lower_cp_def)

lemma last_lower_cp_newline: "last (lower_cp c) = 10 \<Longrightarrow> c = 10"
  by (auto simp: lower_cp_def split: if_splits)

lemma py_lower_nonempty: "py_lower s = [] \<longleftrightarrow> s = []"
  by (cases s) (simp_all add: py_lower_def lower_cp_nonempty)

lemma last_py_lower: "s \<noteq> [] \<Longrightarrow> last (py_lower s) = last (lower_cp (last s))"
proof (induction s)
  case Nil
  then show ?case by simp
next
  case (Cons c cs)
  show ?case
  proof (cases "cs = []")
    case True
    then show ?thesis by (simp add: py_lower_def)
  next
    case False
    then have "py_lower cs \<noteq> []" by (simp add: py_lower_nonempty)
    then have "last (py_lower (c # cs)) = last (py_lower cs)"
      by (simp add: py_lower_def)
    then show ?thesis using Cons.IH False by simp
  qed
qed

lemma normalized_no_newline:
  assumes "n = py_lower (py_lstrip_chars chars (py_strip s))" and "n \<noteq> []"
  shows "last n \<noteq> 10"
proof
  assume l: "last n = 10"
  let ?t = "py_lstrip_chars chars (py_strip s)"
  have t: "?t \<noteq> []" using assms by (auto simp: py_lower_nonempty)
  then have st: "py_strip s \<noteq> []" by (auto simp: py_lstrip_chars_def)
  have "last ?t = last (py_strip s)"
    using t unfolding py_lstrip_chars_def by (rule last_dropWhile_nonempty)
  moreover have "last (lower_cp (last ?t)) = 10"
    using l assms(1) last_py_lower [OF t] by simp
  ultimately have "last (py_strip s) = 10"
    using last_lower_cp_newline by auto
  then show False using py_strip_last [OF st] by (simp add: isspace_def)
qed

lemma username_char_lower_cp:
  "list_all username_char (lower_cp c) \<Longrightarrow> list_all handle_char (lower_cp c)"
  by (auto simp: lower_cp_def username_char_def handle_char_def split: if_splits)

lemma username_char_py_lower:
  "list_all username_char (py_lower s) \<Longrightarrow> list_all handle_char (py_lower s)"
  by (induction s) (auto simp: py_lower_def username_char_lower_cp)

lemma py_startswith_append: "py_startswith (p @ t) p"
  by (induction p) auto

lemma py_startswith_iff: "py_startswith s p \<longleftrightarrow> (\<exists>t. s = p @ t)"
  by (induction s p rule: py_startswith.induct) auto

lemma py_in_prefix: "py_in sub (sub @ b)"
proof (cases "sub @ b")
  case Nil
  then show ?thesis by simp
next
  case (Cons x xs)
  have "py_startswith (sub @ b) sub" by (rule py_startswith_append)
  then show ?thesis using Cons by simp
qed

lemma py_in_append: "py_in sub (a @ sub @ b)"
  by (induction a) (auto simp: py_in_prefix)

lemma py_in_iff: "py_in sub s \<longleftrightarrow> (\<exists>a b. s = a @ sub @ b)"
proof (induction s)
  case Nil
  then show ?case by auto
next
  case (Cons c cs)
  show ?case
  proof
    assume "py_in sub (c # cs)"
    then consider "py_startswith (c # cs) sub" | "py_in sub cs" by auto
    then show "\<exists>a b. c # cs = a @ sub @ b"
    proof cases
      case 1
      then obtain t where "c # cs = sub @ t" by (auto simp: py_startswith_iff)
      then have "c # cs = [] @ sub @ t" by simp
      then show ?thesis by blast
    next
      case 2
      then obtain a b where "cs = a @ sub @ b" using Cons.IH by auto
      then have "c # cs = (c # a) @ sub @ b" by simp
      then show ?thesis by blast
    qed
  next
    assume "\<exists>a b. c # cs = a @ sub @ b"
    then obtain a b where "c # cs = a @ sub @ b" by auto
    then show "py_in sub (c # cs)" using py_in_append by metis
  qed
qed

lemma gist_url_contains_gist:
  "py_startswith url (str ''https://gist.github.com/'') \<Longrightarrow> py_in (str ''gist.github.com'') url"
proof -
  assume "py_startswith url (str ''https://gist.github.com/'')"
  then obtain t where "url = str ''https://gist.github.com/'' @ t"
    by (auto simp: py_startswith_iff)
  then have "url = str ''https://'' @ str ''gist.github.com'' @ (str ''/'' @ t)"
    by (simp add: str_def)
  then show ?thesis using py_in_append by metis
qed

lemma replace_http_prefix:
  "py_startswith url (str ''http://github.com/'') \<Longrightarrow>
   py_startswith (py_replace (str ''http://'') (str ''https://'') url) github_prefix"
proof -
  assume "py_startswith url (str ''http://github.com/'')"
  then obtain t where "url = str ''http://github.com/'' @ t"
    by (auto simp: py_startswith_iff)
  then show ?thesis
    by (simp add: str_def github_prefix_def)
qed

section \<open>Properties of the data processor\<close>

lemma py_strip_Nil: "py_strip [] = []"
  by (simp add: py_strip_def py_lstrip_def py_rstrip_def)

lemma cell_value_cases:
  "(case cell_value c of None \<Rightarrow> True | Some v \<Rightarrow> v = []) \<longleftrightarrow> blank c"
  by (auto simp: cell_value_def blank_def py_strip_Nil)

lemma cell_value_Some: "cell_value c = Some v \<Longrightarrow> v = py_strip c"
  by (auto simp: cell_value_def split: if_splits)

lemma cell_value_None: "cell_value c = None \<Longrightarrow> blank c"
  by (auto simp: cell_value_def blank_def py_strip_Nil split: if_splits)

lemma cell_value_not_blank: "\<not> blank c \<Longrightarrow> cell_value c = Some (py_strip c)"
  by (auto simp: cell_value_def blank_def py_strip_Nil)

lemma row_skipped: "process_sponsored_row row = Skipped \<longleftrightarrow> skipped_row row"
  by (auto simp: process_sponsored_row_def skipped_row_def split: option.splits if_splits)

lemma row_retained_valid:
  assumes "process_sponsored_row row = Retained r"
  shows "\<not> skipped_row row \<and> sponsored_row_valid row"
proof -
  have ns: "\<not> skipped_row row"
    using assms row_skipped by force
  then have a: "\<not> empty_row row" "\<not> header_row row" "\<not> period_only_row row"
    by (auto simp: skipped_row_def)
  have len: "5 \<le> length row"
    using assms a by (auto simp: process_sponsored_row_def split: if_splits)
  obtain m u cs where c: "cell_value (row ! 3) = Some m" "cell_value (row ! 1) = Some u"
      "cell_value (row ! 4) = Some cs"
    using assms a len by (auto simp: process_sponsored_row_def split: option.splits if_splits)
  have eq: "m = py_strip (row ! 3)" "u = py_strip (row ! 1)" "cs = py_strip (row ! 4)"
    using c by (auto dest: cell_value_Some)
  have ne: "m \<noteq> []" "u \<noteq> []" "cs \<noteq> []" and pre: "py_startswith u (str ''https://github.com/'')"
    using assms a len c by (auto simp: process_sponsored_row_def split: option.splits if_splits)
  obtain x where x: "py_float (cost_clean cs) = Some x" "\<not> float_lt_zero x"
    using assms a len c ne pre
    by (auto simp: process_sponsored_row_def split: option.splits if_splits)
  show ?thesis
    using ns len ne pre x unfolding eq by (simp add: sponsored_row_valid_def blank_def)
qed

lemma row_valid_retained:
  assumes "\<not> skipped_row row" and "sponsored_row_valid row"
  shows "\<exists>r. process_sponsored_row row = Retained r \<and> currency r = str ''USD''
     \<and> py_float (cost_clean (py_strip (row ! 4))) = Some (cost r)"
proof -
  have a: "\<not> empty_row row" "\<not> header_row row" "\<not> period_only_row row"
    using assms(1) by (auto simp: skipped_row_def)
  have v: "5 \<le> length row" "\<not> blank (row ! 3)" "\<not> blank (row ! 1)" "\<not> blank (row ! 4)"
    "py_startswith (py_strip (row ! 1)) (str ''https://github.com/'')"
    using assms(2) by (auto simp: sponsored_row_valid_def)
  obtain x where x: "py_float (cost_clean (py_strip (row ! 4))) = Some x" "\<not> float_lt_zero x"
    using assms(2) by (auto simp: sponsored_row_valid_def split: option.splits)
  have ne: "py_strip (row ! 3) \<noteq> []" "py_strip (row ! 1) \<noteq> []" "py_strip (row ! 4) \<noteq> []"
    using v by (auto simp: blank_def)
  have c: "cell_value (row ! 3) = Some (py_strip (row ! 3))"
    "cell_value (row ! 1) = Some (py_strip (row ! 1))"
    "cell_value (row ! 4) = Some (py_strip (row ! 4))"
    using v by (simp_all add: cell_value_not_blank)
  show ?thesis
    using a v(1,5) x ne c by (simp add: process_sponsored_row_def)
qed


lemma row_currency: "process_sponsored_row row = Retained r \<Longrightarrow> currency r = str ''USD''"
  using row_retained_valid [of row r] row_valid_retained [of row] by auto

lemma sponsored_loop_currency:
  "\<forall>r\<in>set processed. currency r = str ''USD'' \<Longrightarrow>
   \<forall>r\<in>set (fst (sponsored_loop rows processed st)). currency r = str ''USD''"
proof (induction rows arbitrary: processed st)
  case Nil
  then show ?case by simp
next
  case (Cons row rows)
  show ?case
  proof (cases "process_sponsored_row row")
    case Skipped
    then show ?thesis using Cons by simp
  next
    case Invalid
    then show ?thesis using Cons by simp
  next
    case (Retained r)
    then have "\<forall>x\<in>set (processed @ [r]). currency x = str ''USD''"
      using Cons.prems row_currency by auto
    then have "\<forall>x\<in>set (fst (sponsored_loop rows (processed @ [r])
        (st\<lparr>imported := imported st + 1\<rparr>))). currency x = str ''USD''"
      by (rule Cons.IH)
    then show ?thesis using Retained by simp
  qed
qed


lemma sponsored_loop_imported:
  "imported (snd (sponsored_loop rows processed st))
     = imported st + length (filter (\<lambda>row. \<exists>r. process_sponsored_row row = Retained r) rows)"
proof (induction rows arbitrary: processed st)
  case Nil
  then show ?case by simp
next
  case (Cons row rows)
  then show ?case by (cases "process_sponsored_row row") simp_all
qed

lemma sponsored_loop_records:
  "fst (sponsored_loop rows processed st)
     = processed @ concat (map (\<lambda>row. case process_sponsored_row row of Retained r \<Rightarrow> [r] | _ \<Rightarrow> []) rows)"
proof (induction rows arbitrary: processed st)
  case Nil
  then show ?case by simp
next
  case (Cons row rows)
  then show ?case by (cases "process_sponsored_row row") simp_all
qed




text \<open>
  The test on the cost is \<open>cost < 0\<close>, which a cost that parses to \<open>nan\<close> passes: such a
  row is kept.
\<close>

lemma process_sponsored_row_nan_cost:
  "process_sponsored_row
     [str ''2025'', str ''https://github.com/alice/proj1'', str '''', str ''@bob'', str ''nan'']
   = Retained
       \<lparr>period = Some (str ''2025''), mentor_identifier = str ''@bob'',
        project_github_url = str ''https://github.com/alice/proj1'',
        project_name = str ''proj1'', telegram_message_url = None, cost = NaN,
        currency = str ''USD'', payment_status = str ''pending''\<rparr>"
  by (simp add: row_eval py_eval num_eval)

text \<open>
  Project rows: a period header whose period parses (or is absent) replaces the current
  period and emits nothing, and the records of a run of data rows carry the period
  that was current when the run began.
\<close>

lemma period_header_replaces_period:
  "is_period_header row \<Longrightarrow> header_period row = Inr p \<Longrightarrow>
   process_projects_from current_period (row # rows) = process_projects_from p rows"
  by simp

lemma data_rows_carry_period:
  "list_all (\<lambda>row. \<not> is_period_header row) rows \<Longrightarrow>
   process_projects_from current_period rows = Inr rs \<Longrightarrow>
   list_all (\<lambda>r. submission_date r = current_period) rs"
proof (induction rows arbitrary: rs)
  case Nil
  then show ?case by simp
next
  case (Cons row rows)
  then show ?case
    by (auto simp: project_of_row_def Let_def split: if_splits option.splits sum.splits)
qed

section \<open>Properties of the import service\<close>


lemma py_in_Nil_right: "py_in sub [] \<longleftrightarrow> sub = []"
  by simp

lemma py_truediv_zero: "py_truediv a 0 = Inl ZeroDivisionError"
  by (simp add: py_truediv_def)












text \<open>Association with a prior review, where the queries return at most one row.\<close>

lemma find_review_by_url_unique:
  "url \<noteq> [] \<Longrightarrow> filter (\<lambda>r. reviews_review_url r = Some url) reviews = [review] \<Longrightarrow>
   find_review_by_url reviews (Some url) mentor_id project_id = Inr (Some (reviews_id review))"
  by (simp add: find_review_by_url_def scalar_one_or_none_def)


lemma associated_review_fallback_unique:
  "filter (\<lambda>r. reviews_review_url r = Some url) reviews = [] \<Longrightarrow>
   filter (\<lambda>r. reviews_mentor_id r = mentor_id \<and> reviews_project_id r = project_id) reviews
     = [review] \<Longrightarrow>
   associated_review reviews (Some url) mentor_id project_id = Inr (Some (reviews_id review))"
  by (simp add: associated_review_def find_review_by_url_def scalar_one_or_none_def
      fallback_review_def id_true_def)

lemma associated_review_unset:
  "filter (\<lambda>r. reviews_review_url r = Some url) reviews = [] \<Longrightarrow>
   filter (\<lambda>r. reviews_mentor_id r = mentor_id \<and> reviews_project_id r = project_id) reviews = [] \<Longrightarrow>
   associated_review reviews (Some url) mentor_id project_id = Inr None"
  by (simp add: associated_review_def find_review_by_url_def scalar_one_or_none_def
      fallback_review_def id_true_def)






text \<open>
  A mentor who reviewed one project twice. The sponsored review's mentor and project
  resolve (ids 3 and 7), no review has its message URL, and two reviews (ids 1 and 2)
  share the mentor and the project. The fallback query is ordered by id, newest first,
  but it is read with \<open>scalar_one_or_none\<close>, which raises \<open>MultipleResultsFound\<close> on two
  rows; the loop's \<open>except\<close> catches it and goes on, so the sponsored review is not
  stored at all and nothing is counted.
\<close>

lemma import_sponsored_review_two_reviews:
  "mentor_lookup [str ''bob'' \<mapsto> 3] (str ''@Bob'') = Some 3
   \<and> find_project_by_github_url
        [\<lparr>projects_id = 7, projects_name = str ''proj1'',
          projects_repository_url = Some (str ''https://github.com/alice/proj1'')\<rparr>]
        (str ''https://github.com/alice/proj1'') (str ''proj1'') = Inr (Some 7)
   \<and> fallback_review
        [\<lparr>reviews_id = 1, reviews_project_id = 7, reviews_mentor_id = 3,
          reviews_review_url = Some (str ''https://t.me/c/1/10'')\<rparr>,
         \<lparr>reviews_id = 2, reviews_project_id = 7, reviews_mentor_id = 3,
          reviews_review_url = Some (str ''https://t.me/c/1/11'')\<rparr>] 3 7
      = Inl MultipleResultsFound
   \<and> import_sponsored_reviews [str ''bob'' \<mapsto> 3]
        [\<lparr>projects_id = 7, projects_name = str ''proj1'',
          projects_repository_url = Some (str ''https://github.com/alice/proj1'')\<rparr>]
        [\<lparr>reviews_id = 1, reviews_project_id = 7, reviews_mentor_id = 3,
          reviews_review_url = Some (str ''https://t.me/c/1/10'')\<rparr>,
         \<lparr>reviews_id = 2, reviews_project_id = 7, reviews_mentor_id = 3,
          reviews_review_url = Some (str ''https://t.me/c/1/11'')\<rparr>]
        [\<lparr>period = Some (str ''2025''), mentor_identifier = str ''@Bob'',
          project_github_url = str ''https://github.com/alice/proj1'',
          project_name = str ''proj1'',
          telegram_message_url = Some (str ''https://t.me/c/1/99''),
          cost = Finite 20, currency = str ''USD'', payment_status = str ''pending''\<rparr>]
        [] \<lparr>created = 0, link_errors = 0\<rparr>
      = ([], \<lparr>created = 0, link_errors = 0\<rparr>)"
proof -
  have m: "mentor_lookup [str ''bob'' \<mapsto> 3] (str ''@Bob'') = Some 3"
    by (simp add: mentor_lookup_def py_eval)
  have p: "find_project_by_github_url
        [\<lparr>projects_id = 7, projects_name = str ''proj1'',
          projects_repository_url = Some (str ''https://github.com/alice/proj1'')\<rparr>]
        (str ''https://github.com/alice/proj1'') (str ''proj1'') = Inr (Some 7)"
    by (simp add: find_project_by_github_url_def normalize_github_url_canonical_def
        scalar_one_or_none_def py_eval)
  have f: "fallback_review
        [\<lparr>reviews_id = 1, reviews_project_id = 7, reviews_mentor_id = 3,
          reviews_review_url = Some (str ''https://t.me/c/1/10'')\<rparr>,
         \<lparr>reviews_id = 2, reviews_project_id = 7, reviews_mentor_id = 3,
          reviews_review_url = Some (str ''https://t.me/c/1/11'')\<rparr>] 3 7
      = Inl MultipleResultsFound"
    by (simp add: fallback_review_def scalar_one_or_none_def)
  have u: "find_review_by_url
        [\<lparr>reviews_id = 1, reviews_project_id = 7, reviews_mentor_id = 3,
          reviews_review_url = Some (str ''https://t.me/c/1/10'')\<rparr>,
         \<lparr>reviews_id = 2, reviews_project_id = 7, reviews_mentor_id = 3,
          reviews_review_url = Some (str ''https://t.me/c/1/11'')\<rparr>]
        (Some (str ''https://t.me/c/1/99'')) 3 7 = Inr None"
    by (simp add: find_review_by_url_def scalar_one_or_none_def str_def)
  show ?thesis
    using m p f u
    by (simp add: import_sponsored_review_def associated_review_def id_true_def)
qed

section \<open>Claims\<close>

text \<open>
  C4 (as amended). For every raw string, \<open>normalize_telegram_username\<close> trims surrounding
  whitespace, strips every leading \<open>@\<close> (\<open>lstrip("@")\<close> removes all of them, not one),
  lower-cases the remainder and returns it exactly when it is non-empty and consists of
  characters of \<open>[a-zA-Z0-9_]\<close> only; otherwise the result is \<open>None\<close>. A returned handle
  consists of \<open>[a-z0-9_]\<close> only. The function is total: no input raises.
\<close>

theorem normalize_telegram_username_all_ats:
  "normalize_telegram_username s =
     (let r = py_lower (py_lstrip_chars (str ''@'') (py_strip s))
      in if r \<noteq> [] \<and> list_all username_char r then Some r else None)
   \<and> (\<forall>h. normalize_telegram_username s = Some h \<longrightarrow> h \<noteq> [] \<and> list_all handle_char h)"
proof -
  define r where "r = py_lower (py_lstrip_chars (str ''@'') (py_strip s))"
  have m: "re_match_username r \<longleftrightarrow> r \<noteq> [] \<and> list_all username_char r"
    using normalized_no_newline [OF r_def] by (auto simp: re_match_username_def Let_def)
  have e: "s = [] \<Longrightarrow> r = []"
    by (simp add: r_def py_strip_def py_lstrip_def py_rstrip_def py_lstrip_chars_def py_lower_def)
  have 1: "normalize_telegram_username s =
      (if r \<noteq> [] \<and> list_all username_char r then Some r else None)"
    using m e by (auto simp: normalize_telegram_username_def Let_def r_def [symmetric])
  have 2: "list_all username_char r \<Longrightarrow> list_all handle_char r"
    unfolding r_def by (rule username_char_py_lower)
  show ?thesis
    using 1 2 by (auto simp: Let_def r_def [symmetric] split: if_splits)
qed

theorem normalize_telegram_username_all_ats_witness:
  "normalize_telegram_username (str '' @Bob_42 '') = Some (str ''bob_42'')
   \<and> str ''bob_42'' \<noteq> [] \<and> list_all handle_char (str ''bob_42'')"
proof -
  have "normalize_telegram_username (str '' @Bob_42 '') = Some (str ''bob_42'')"
    by (simp add: normalize_telegram_username_def str_def py_strip_def py_lstrip_def
        py_rstrip_def py_lstrip_chars_def py_lower_def lower_cp_def isspace_def
        re_match_username_def username_char_def Let_def)
  then show ?thesis
    using normalize_telegram_username_all_ats [of "str '' @Bob_42 ''"] by blast
qed

text \<open>
  C4 as stated fails at \<open>"@@bob"\<close>: after stripping one leading \<open>@\<close> the remainder
  \<open>"@bob"\<close> contains \<open>@\<close>, which is outside the class, yet the result is \<open>"bob"\<close>.
\<close>

theorem normalize_telegram_username_single_at_counterexample:
  "strip_single_at (py_strip (str ''@@bob'')) = str ''@bob''
   \<and> \<not> list_all username_char (str ''@bob'')
   \<and> normalize_telegram_username (str ''@@bob'') = Some (str ''bob'')"
  by (simp add: normalize_telegram_username_def str_def py_strip_def py_lstrip_def
      py_rstrip_def py_lstrip_chars_def py_lower_def lower_cp_def isspace_def
      re_match_username_def username_char_def strip_single_at_def Let_def)

text \<open>
  C9. For every input whose stripped form is non-empty and contains neither
  \<open>gist.github.com\<close> nor the double prefix \<open>https://github.com/https://\<close>,
  \<open>normalize_github_url\<close> returns a string that starts with \<open>https://github.com/\<close>.
  Nothing is rejected: an input that starts with none of \<open>https://github.com/\<close>,
  \<open>http://github.com/\<close> and \<open>github.com/\<close> (a name with spaces, a URL of another host)
  is returned with the prefix put in front of it verbatim.
\<close>

theorem normalize_github_url_prefixes:
  assumes "py_strip s \<noteq> []"
    and "\<not> py_in (str ''gist.github.com'') (py_strip s)"
    and "\<not> py_in double_prefix (py_strip s)"
  shows "(\<exists>r. normalize_github_url s = Some r \<and> py_startswith r github_prefix)
    \<and> (\<not> py_startswith (py_strip s) (str ''https://github.com/'')
       \<and> \<not> py_startswith (py_strip s) (str ''http://github.com/'')
       \<and> \<not> py_startswith (py_strip s) (str ''github.com/'')
       \<longrightarrow> normalize_github_url s = Some (github_prefix @ py_strip s))"
proof -
  have ne: "s \<noteq> []"
    using assms(1) by (auto simp: py_strip_def py_lstrip_def py_rstrip_def)
  have dp: "double_prefix_result (py_strip s) = None"
    using assms(3) by (simp add: double_prefix_result_def)
  have ng: "\<not> py_startswith (py_strip s) (str ''https://gist.github.com/'')"
    using assms(2) gist_url_contains_gist by blast
  have g3: "py_startswith (str ''https://'' @ py_strip s) github_prefix"
    if "py_startswith (py_strip s) (str ''github.com/'')"
  proof -
    from that obtain t where "py_strip s = str ''github.com/'' @ t"
      by (auto simp: py_startswith_iff)
    then show ?thesis by (simp add: str_def github_prefix_def)
  qed
  have g1: "py_startswith (py_strip s) github_prefix"
    if "py_startswith (py_strip s) (str ''https://github.com/'')"
    using that by (simp add: github_prefix_def)
  show ?thesis
    using ne dp ng g1 g3 replace_http_prefix [of "py_strip s"]
    by (simp add: normalize_github_url_def Let_def py_startswith_append)
qed

theorem normalize_github_url_prefixes_witness:
  "py_strip (str '' http://example.com/a b '') \<noteq> []
   \<and> \<not> py_in (str ''gist.github.com'') (py_strip (str '' http://example.com/a b ''))
   \<and> \<not> py_in double_prefix (py_strip (str '' http://example.com/a b ''))
   \<and> normalize_github_url (str '' http://example.com/a b '')
       = Some (str ''https://github.com/http://example.com/a b'')"
proof -
  let ?s = "str '' http://example.com/a b ''"
  have st: "py_strip ?s = str ''http://example.com/a b''"
    by (simp add: py_eval)
  have h1: "py_strip ?s \<noteq> []"
    unfolding st by (simp add: str_def)
  have h2: "\<not> py_in (str ''gist.github.com'') (py_strip ?s)"
    unfolding st by (simp add: py_eval)
  have h3: "\<not> py_in double_prefix (py_strip ?s)"
    unfolding st by (simp add: py_eval)
  have n: "\<not> py_startswith (py_strip ?s) (str ''https://github.com/'')
       \<and> \<not> py_startswith (py_strip ?s) (str ''http://github.com/'')
       \<and> \<not> py_startswith (py_strip ?s) (str ''github.com/'')"
    unfolding st by (simp add: py_eval)
  have "normalize_github_url ?s = Some (github_prefix @ py_strip ?s)"
    using normalize_github_url_prefixes [OF h1 h2 h3] n by blast
  moreover have "github_prefix @ py_strip ?s = str ''https://github.com/http://example.com/a b''"
    unfolding st by (simp add: github_prefix_def str_def)
  ultimately show ?thesis using h1 h2 h3 by simp
qed

text \<open>
  C5 at owner \<open>alice\<close>, repository \<open>chat\<close>. \<open>path.rstrip(".git")\<close> strips every trailing
  character of the set \<open>{., g, i, t}\<close>, not the suffix \<open>.git\<close>: four of the five variants
  lose the final \<open>t\<close> of the repository name, and the variant with the trailing slash,
  which shields the name from \<open>rstrip\<close>, keeps it. The five results are not identical.
\<close>

theorem normalize_github_url_canonical_rstrip_git:
  "normalize_github_url_canonical (str ''alice/chat'') = Some (str ''https://github.com/alice/cha'')
   \<and> normalize_github_url_canonical (str ''github.com/alice/chat'')
       = Some (str ''https://github.com/alice/cha'')
   \<and> normalize_github_url_canonical (str ''http://github.com/alice/chat'')
       = Some (str ''https://github.com/alice/cha'')
   \<and> normalize_github_url_canonical (str ''https://github.com/alice/chat/'')
       = Some (str ''https://github.com/alice/chat'')
   \<and> normalize_github_url_canonical (str ''https://github.com/alice/chat.git'')
       = Some (str ''https://github.com/alice/cha'')"
  by (simp add: normalize_github_url_canonical_def py_eval)




text \<open>
  C7 at a period header whose year does not fit a C \<open>int\<close>. The row is a period header
  (one cell) and its month is a known one, yet \<open>parse_period\<close>, whose \<open>try\<close> catches
  \<open>ValueError\<close> and \<open>IndexError\<close> only, lets the \<open>OverflowError\<close> of \<open>date\<close> through, and
  \<open>_process_projects\<close> ends with that error instead of going on with no period. With
  the year 2021 the same header gives the data row after it its period.
\<close>

theorem process_projects_period_overflow:
  "is_period_header [[1053, 1086, 1103, 1073, 1088, 1100] @ str '', 3000000000'']
   \<and> process_projects
        [[[1053, 1086, 1103, 1073, 1088, 1100] @ str '', 3000000000''],
         [str ''1'', str ''proj1'', str ''Python'', str '''', str ''https://github.com/alice/proj1'',
          str '''', str ''alice'', str ''yes'']]
      = Inl OverflowError
   \<and> process_projects
        [[[1053, 1086, 1103, 1073, 1088, 1100] @ str '', 2021''],
         [str ''1'', str ''proj1'', str ''Python'', str '''', str ''https://github.com/alice/proj1'',
          str '''', str ''alice'', str ''yes'']]
      = Inr [\<lparr>name = str ''proj1'', language = str ''Python'',
               repository_url = str ''https://github.com/alice/proj1'',
               author_github_url = str ''https://github.com/alice'',
               submission_date = Some (Date 2021 11 1)\<rparr>]"
proof -
  have o: "parse_period ([1053, 1086, 1103, 1073, 1088, 1100] @ str '', 3000000000'')
      = Inl OverflowError"
    by (simp add: parse_period_def py_date_def month_map_def py_eval num_eval)
  have p: "parse_period ([1053, 1086, 1103, 1073, 1088, 1100] @ str '', 2021'')
      = Inr (Some (Date 2021 11 1))"
    by (simp add: parse_period_def py_date_def month_map_def py_eval num_eval)
  have d: "project_of_row
        [str ''1'', str ''proj1'', str ''Python'', str '''', str ''https://github.com/alice/proj1'',
          str '''', str ''alice'', str ''yes''] (Some (Date 2021 11 1))
      = Some \<lparr>name = str ''proj1'', language = str ''Python'',
               repository_url = str ''https://github.com/alice/proj1'',
               author_github_url = str ''https://github.com/alice'',
               submission_date = Some (Date 2021 11 1)\<rparr>"
    by (simp add: project_of_row_def clean_string_def normalize_github_url_def
        double_prefix_result_def py_eval)
  have n: "\<not> is_period_header
        [str ''1'', str ''proj1'', str ''Python'', str '''', str ''https://github.com/alice/proj1'',
          str '''', str ''alice'', str ''yes'']"
    by (simp add: is_period_header_def py_eval)
  show ?thesis
    using o p d n
    by (simp add: process_projects_def is_period_header_def header_period_def
        validate_row_length_def)
qed

text \<open>
  C8. Every record that \<open>_process_sponsored_reviews\<close> keeps has the currency \<open>"USD"\<close>,
  whichever currency symbol stood in the cost cell.
\<close>

theorem sponsored_currency_is_usd:
  "\<forall>r\<in>set (fst (process_sponsored_reviews rows st)). currency r = str ''USD''"
  unfolding process_sponsored_reviews_def by (rule sponsored_loop_currency) simp

text \<open>A row that costs 1500 roubles: it is kept, and its currency is \<open>"USD"\<close>.\<close>

theorem sponsored_currency_is_usd_witness:
  "map cost (fst (process_sponsored_reviews
      [[str ''2025'', str ''https://github.com/alice/proj1'', str ''https://t.me/c/1/2'',
        str ''@bob'', [8381] @ str ''1500'']]
      \<lparr>total = 0, imported = 0, linking_errors = 0, validation_errors = 0\<rparr>)) = [Finite 1500]
   \<and> map currency (fst (process_sponsored_reviews
      [[str ''2025'', str ''https://github.com/alice/proj1'', str ''https://t.me/c/1/2'',
        str ''@bob'', [8381] @ str ''1500'']]
      \<lparr>total = 0, imported = 0, linking_errors = 0, validation_errors = 0\<rparr>)) = [str ''USD'']"
proof -
  let ?rows = "[[str ''2025'', str ''https://github.com/alice/proj1'', str ''https://t.me/c/1/2'',
        str ''@bob'', [8381] @ str ''1500'']]"
  let ?st = "\<lparr>total = 0, imported = 0, linking_errors = 0, validation_errors = 0\<rparr>"
  let ?out = "fst (process_sponsored_reviews ?rows ?st)"
  have c: "map cost ?out = [Finite 1500]"
    by (simp add: process_sponsored_reviews_def row_eval py_eval num_eval)
  then obtain r where r: "?out = [r]"
    by auto
  have "\<forall>x\<in>set ?out. currency x = str ''USD''"
    by (rule sponsored_currency_is_usd)
  then have "map currency ?out = [str ''USD'']"
    unfolding r by simp
  then show ?thesis using c by simp
qed







text \<open>
  C10 (as amended). For every non-empty message URL and every state of the reviews
  table in which exactly one review has that URL stored, \<open>_find_review_by_url\<close> returns
  that review's id whatever \<open>mentor_id\<close> and \<open>project_id\<close> are: neither is compared with
  the review's own mentor or project.
\<close>

theorem find_review_by_url_ignores_mentor_and_project:
  "url \<noteq> [] \<Longrightarrow> filter (\<lambda>r. reviews_review_url r = Some url) reviews = [review] \<Longrightarrow>
   find_review_by_url reviews (Some url) mentor_id project_id = Inr (Some (reviews_id review))"
  by (rule find_review_by_url_unique)

text \<open>A review of mentor 5 for project 6 is returned to a caller that asks for mentor 1
  and project 2.\<close>

theorem find_review_by_url_ignores_mentor_and_project_witness:
  "str ''https://t.me/c/1/10'' \<noteq> []
   \<and> filter (\<lambda>r. reviews_review_url r = Some (str ''https://t.me/c/1/10''))
        [\<lparr>reviews_id = 4, reviews_project_id = 6, reviews_mentor_id = 5,
          reviews_review_url = Some (str ''https://t.me/c/1/10'')\<rparr>,
         \<lparr>reviews_id = 9, reviews_project_id = 2, reviews_mentor_id = 1,
          reviews_review_url = None\<rparr>]
      = [\<lparr>reviews_id = 4, reviews_project_id = 6, reviews_mentor_id = 5,
          reviews_review_url = Some (str ''https://t.me/c/1/10'')\<rparr>]
   \<and> find_review_by_url
        [\<lparr>reviews_id = 4, reviews_project_id = 6, reviews_mentor_id = 5,
          reviews_review_url = Some (str ''https://t.me/c/1/10'')\<rparr>,
         \<lparr>reviews_id = 9, reviews_project_id = 2, reviews_mentor_id = 1,
          reviews_review_url = None\<rparr>]
        (Some (str ''https://t.me/c/1/10'')) 1 2 = Inr (Some 4)"
proof -
  let ?r = "\<lparr>reviews_id = 4, reviews_project_id = 6, reviews_mentor_id = 5,
          reviews_review_url = Some (str ''https://t.me/c/1/10'')\<rparr>"
  let ?rs = "[?r, \<lparr>reviews_id = 9, reviews_project_id = 2, reviews_mentor_id = 1,
          reviews_review_url = None\<rparr>]"
  have n: "str ''https://t.me/c/1/10'' \<noteq> []"
    by (simp add: str_def)
  have f: "filter (\<lambda>r. reviews_review_url r = Some (str ''https://t.me/c/1/10'')) ?rs = [?r]"
    by simp
  have "find_review_by_url ?rs (Some (str ''https://t.me/c/1/10'')) 1 2 = Inr (Some (reviews_id ?r))"
    using n f by (rule find_review_by_url_ignores_mentor_and_project)
  then show ?thesis using n f by simp
qed

text \<open>
  C10 as stated fails at the empty message URL: exactly one review has the empty URL
  stored, and the function returns \<open>None\<close>, since a false message URL is answered before
  any query.
\<close>

theorem find_review_by_url_empty_counterexample:
  "filter (\<lambda>r. reviews_review_url r = Some [])
        [\<lparr>reviews_id = 4, reviews_project_id = 6, reviews_mentor_id = 5,
          reviews_review_url = Some []\<rparr>]
      = [\<lparr>reviews_id = 4, reviews_project_id = 6, reviews_mentor_id = 5,
          reviews_review_url = Some []\<rparr>]
   \<and> find_review_by_url
        [\<lparr>reviews_id = 4, reviews_project_id = 6, reviews_mentor_id = 5,
          reviews_review_url = Some []\<rparr>] (Some []) 5 6 = Inr None"
  by (simp add: find_review_by_url_def)

end
